theory Spec2Isabelle
  imports Complex_Main
begin

section \<open>Floating-point values with their special cases\<close>

text \<open>
  The code works on NumPy \<open>float64\<close> values. Its control flow depends on the special
  values (\<open>np.isnan\<close>, \<open>np.nanmean\<close>, \<open>int\<close> of an infinity), so they are
  constructors of their own. A finite value is the real number the double stands for.
  Every arithmetic operation returns the double nearest to the exact result (to nearest,
  ties to even; beyond the largest double it gives an infinity), as IEEE 754 has it.
  The sign of zero is not kept.
\<close>

datatype fl = NaN | NInf | Fin real | PInf

text \<open>Rounding to the nearest integer, ties to the even one.\<close>

definition round_half_even :: "real \<Rightarrow> int" where
  "round_half_even t =
     (let f = \<lfloor>t\<rfloor>; d = t - of_int f
      in if d < 1 / 2 then f else if 1 / 2 < d then f + 1 else if even f then f else f + 1)"

text \<open>The double nearest to a real number: 53 significant bits, exponents from -1022 (below
  that the spacing stays at \<open>2^-1074\<close>), infinite from \<open>2^1024\<close> on.\<close>

definition float64 :: "real \<Rightarrow> fl" where
  "float64 x =
     (if x = 0 then Fin 0
      else
        (let e = max \<lfloor>log 2 \<bar>x\<bar>\<rfloor> (- 1022);
             ulp = 2 powr (of_int e - 52);
             y = of_int (round_half_even (x / ulp)) * ulp
         in if 2 ^ 1024 \<le> \<bar>y\<bar> then (if 0 < x then PInf else NInf) else Fin y))"

definition isnan :: "fl \<Rightarrow> bool" where
  "isnan x = (x = NaN)"

fun fl_neg :: "fl \<Rightarrow> fl" where
  "fl_neg NaN = NaN"
| "fl_neg NInf = PInf"
| "fl_neg (Fin a) = Fin (- a)"
| "fl_neg PInf = NInf"

fun fl_add :: "fl \<Rightarrow> fl \<Rightarrow> fl" where
  "fl_add NaN y = NaN"
| "fl_add x NaN = NaN"
| "fl_add (Fin a) (Fin b) = float64 (a + b)"
| "fl_add (Fin a) y = y"
| "fl_add x (Fin b) = x"
| "fl_add PInf PInf = PInf"
| "fl_add NInf NInf = NInf"
| "fl_add x y = NaN"

definition fl_sub :: "fl \<Rightarrow> fl \<Rightarrow> fl" where
  "fl_sub x y = fl_add x (fl_neg y)"

fun fl_mul :: "fl \<Rightarrow> fl \<Rightarrow> fl" where
  "fl_mul NaN y = NaN"
| "fl_mul x NaN = NaN"
| "fl_mul (Fin a) (Fin b) = float64 (a * b)"
| "fl_mul (Fin a) y = (if a = 0 then NaN else if 0 < a then y else fl_neg y)"
| "fl_mul x (Fin b) = (if b = 0 then NaN else if 0 < b then x else fl_neg x)"
| "fl_mul PInf y = y"
| "fl_mul NInf y = fl_neg y"

text \<open>Division as NumPy scalars do it: dividing by zero gives an infinity (or NaN for
  \<open>0 / 0\<close>) and a warning, never an exception. The zero divisor counts as \<open>+0.0\<close>.\<close>

fun fl_div :: "fl \<Rightarrow> fl \<Rightarrow> fl" where
  "fl_div NaN y = NaN"
| "fl_div x NaN = NaN"
| "fl_div (Fin a) (Fin b) =
     (if b = 0 then (if a = 0 then NaN else if 0 < a then PInf else NInf)
      else float64 (a / b))"
| "fl_div (Fin a) y = Fin 0"
| "fl_div x (Fin b) = (if b < 0 then fl_neg x else x)"
| "fl_div x y = NaN"

text \<open>\<open>np.cos\<close> (taken as correctly rounded) and \<open>np.pi\<close>, the double nearest to pi.\<close>

fun fl_cos :: "fl \<Rightarrow> fl" where
  "fl_cos (Fin a) = float64 (cos a)"
| "fl_cos x = NaN"

definition np_pi :: real where
  "np_pi = 884279719003555 / 281474976710656"

datatype error =
  KeyError | IndexError | ValueError | TypeError | OverflowError | FileNotFoundError

text \<open>Python's \<open>int(x)\<close> on a float: truncation towards zero; NaN and the infinities
  raise.\<close>

fun py_int :: "fl \<Rightarrow> error + int" where
  "py_int NaN = Inl ValueError"
| "py_int (Fin a) = Inr (if 0 \<le> a then \<lfloor>a\<rfloor> else \<lceil>a\<rceil>)"
| "py_int x = Inl OverflowError"

text \<open>Python's \<open>min\<close> of a list: an empty list raises \<open>ValueError\<close>.\<close>

fun py_min :: "int list \<Rightarrow> error + int" where
  "py_min [] = Inl ValueError"
| "py_min (k # ks) = Inr (fold min ks k)"

text \<open>The mean of the entries that are not NaN, summed from left to right; NaN when there
  is none.\<close>

definition nanmean :: "fl list \<Rightarrow> fl" where
  "nanmean xs =
     (let ys = filter (\<lambda>x. \<not> isnan x) xs
      in if ys = [] then NaN else fl_div (foldl fl_add (Fin 0) ys) (Fin (real (length ys))))"

section \<open>Labelled arrays and datasets\<close>

text \<open>
  An \<open>xarray\<close> variable: named dimensions, a shape, and the element at each multi-index
  (only the indices inside the shape are read). The element types are \<open>float64\<close>,
  \<open>bool\<close> and the integer types (signed or not, with their width in bits). A dataset
  maps names to variables; data variables and coordinates are kept apart, as \<open>xarray\<close>
  does, in insertion order.
\<close>

record 'a ndarray =
  dims :: "string list"
  shape :: "nat list"
  vals :: "nat list \<Rightarrow> 'a"

datatype variable =
  FloatVar "fl ndarray" | BoolVar "bool ndarray" | IntVar bool nat "int ndarray"

record dataset =
  data_vars :: "(string \<times> variable) list"
  coords :: "(string \<times> variable) list"
  attrs :: "(string \<times> string) list"

fun var_dims :: "variable \<Rightarrow> string list" where
  "var_dims (FloatVar a) = dims a"
| "var_dims (BoolVar b) = dims b"
| "var_dims (IntVar sg w c) = dims c"

fun var_shape :: "variable \<Rightarrow> nat list" where
  "var_shape (FloatVar a) = shape a"
| "var_shape (BoolVar b) = shape b"
| "var_shape (IntVar sg w c) = shape c"

text \<open>The numbers of a variable as doubles; a boolean counts as 1.0 or 0.0.\<close>

fun var_floats :: "variable \<Rightarrow> fl ndarray" where
  "var_floats (FloatVar a) = a"
| "var_floats (BoolVar b) =
     \<lparr>dims = dims b, shape = shape b, vals = (\<lambda>idx. if vals b idx then Fin 1 else Fin 0)\<rparr>"
| "var_floats (IntVar sg w c) =
     \<lparr>dims = dims c, shape = shape c, vals = (\<lambda>idx. float64 (of_int (vals c idx)))\<rparr>"

fun index_of :: "'a \<Rightarrow> 'a list \<Rightarrow> nat option" where
  "index_of x [] = None"
| "index_of x (y # ys) = (if x = y then Some 0 else map_option Suc (index_of x ys))"

text \<open>All multi-indices of a shape, in row-major order.\<close>

fun indices :: "nat list \<Rightarrow> nat list list" where
  "indices [] = [[]]"
| "indices (n # ns) = concat (map (\<lambda>i. map ((#) i) (indices ns)) [0..<n])"

text \<open>\<open>ds[name]\<close>: a data variable or a coordinate of that name.\<close>

definition ds_get :: "dataset \<Rightarrow> string \<Rightarrow> variable option" where
  "ds_get ds name = map_of (data_vars ds @ coords ds) name"

text \<open>\<open>ds.sizes[d]\<close>: the length of dimension \<open>d\<close>, read off the first variable that
  has it.\<close>

definition ds_sizes :: "dataset \<Rightarrow> string \<Rightarrow> nat option" where
  "ds_sizes ds d =
     (case List.find (\<lambda>v. d \<in> set (var_dims v)) (map snd (data_vars ds @ coords ds)) of
        None \<Rightarrow> None
      | Some v \<Rightarrow> map_option (\<lambda>k. var_shape v ! k) (index_of d (var_dims v)))"

text \<open>\<open>ds[name]\<close> as \<open>xarray\<close> resolves it: a variable of that name, else the default
  index \<open>0, 1, ...\<close> of a dimension of that name, else \<open>KeyError\<close>.\<close>

definition ds_getitem :: "dataset \<Rightarrow> string \<Rightarrow> error + variable" where
  "ds_getitem ds name =
     (case ds_get ds name of
        Some v \<Rightarrow> Inr v
      | None \<Rightarrow>
          (case ds_sizes ds name of
             Some n \<Rightarrow> Inr (FloatVar \<lparr>dims = [name], shape = [n],
                                     vals = (\<lambda>idx. Fin (real (hd idx)))\<rparr>)
           | None \<Rightarrow> Inl KeyError))"

text \<open>\<open>a.isel(d=i)\<close> for the dimension at position \<open>k\<close>: the axis is dropped.\<close>

definition isel :: "'a ndarray \<Rightarrow> nat \<Rightarrow> nat \<Rightarrow> 'a ndarray" where
  "isel a k i =
     \<lparr>dims = take k (dims a) @ drop (Suc k) (dims a),
      shape = take k (shape a) @ drop (Suc k) (shape a),
      vals = (\<lambda>idx. vals a (take k idx @ i # drop k idx))\<rparr>"

text \<open>Slicing keeps the element type.\<close>

fun var_isel :: "variable \<Rightarrow> nat \<Rightarrow> nat \<Rightarrow> variable" where
  "var_isel (FloatVar a) k i = FloatVar (isel a k i)"
| "var_isel (BoolVar b) k i = BoolVar (isel b k i)"
| "var_isel (IntVar sg w c) k i = IntVar sg w (isel c k i)"

section \<open>NumPy\<close>

text \<open>
  What \<open>apply_remove_background_noise\<close> asks of NumPy: \<open>np.diff\<close>, \<open>np.nanmean\<close>
  and the division of a number by a \<open>np.float64\<close>. They are library code, so the
  function below takes them as an argument and the theorem about it holds for every
  NumPy. (\<open>np.isnan\<close> is the test for the value NaN.)
\<close>

record numpy =
  np_diff :: "variable \<Rightarrow> variable"
  np_nanmean :: "variable \<Rightarrow> fl"
  true_divide :: "fl \<Rightarrow> fl \<Rightarrow> fl"

text \<open>
  NumPy on float64, for the examples. \<open>np.diff\<close> takes the differences of neighbours
  along the last axis: rounded for doubles, exclusive-or for booleans, wrapping around
  for integers. \<open>np.nanmean\<close> divides the sum of the entries that are not NaN by their
  number. The sum is taken from left to right here, as NumPy does for fewer than eight
  entries (longer sums are grouped in pairs).
\<close>

definition diff_last :: "('a \<Rightarrow> 'a \<Rightarrow> 'a) \<Rightarrow> 'a ndarray \<Rightarrow> 'a ndarray" where
  "diff_last sub a =
     \<lparr>dims = dims a, shape = butlast (shape a) @ [last (shape a) - 1],
      vals = (\<lambda>idx. sub (vals a (butlast idx @ [Suc (last idx)])) (vals a idx))\<rparr>"

definition wrap_int :: "bool \<Rightarrow> nat \<Rightarrow> int \<Rightarrow> int" where
  "wrap_int sg w x =
     (if sg then (x + 2 ^ (w - 1)) mod 2 ^ w - 2 ^ (w - 1) else x mod 2 ^ w)"

fun diff_f64 :: "variable \<Rightarrow> variable" where
  "diff_f64 (FloatVar a) = FloatVar (diff_last fl_sub a)"
| "diff_f64 (BoolVar b) = BoolVar (diff_last (\<lambda>x y. x \<noteq> y) b)"
| "diff_f64 (IntVar sg w c) = IntVar sg w (diff_last (\<lambda>x y. wrap_int sg w (x - y)) c)"

definition nanmean_f64 :: "variable \<Rightarrow> fl" where
  "nanmean_f64 v = nanmean (map (vals (var_floats v)) (indices (var_shape v)))"

definition numpy_f64 :: numpy where
  "numpy_f64 = \<lparr>np_diff = diff_f64, np_nanmean = nanmean_f64, true_divide = fl_div\<rparr>"

section \<open>Background noise removal: the default \<open>range_sample_num\<close>\<close>

text \<open>
  \<open>np.nanmean(np.diff(ds_Sv["echo_range"].isel(channel=ch).values[0, :]))\<close>:
  the lookup raises \<open>KeyError\<close> without an \<open>echo_range\<close>; \<open>isel\<close> raises
  \<open>ValueError\<close> when \<open>echo_range\<close> has no \<open>channel\<close> dimension and
  \<open>IndexError\<close> past its end; \<open>values[0, :]\<close> raises \<open>IndexError\<close> on fewer than two
  remaining axes or no first row, and is the first ping otherwise.
\<close>

definition mean_diff :: "numpy \<Rightarrow> dataset \<Rightarrow> nat \<Rightarrow> error + fl" where
  "mean_diff np ds ch =
     (case ds_getitem ds ''echo_range'' of
        Inl e \<Rightarrow> Inl e
      | Inr v \<Rightarrow>
          (case index_of ''channel'' (var_dims v) of
             None \<Rightarrow> Inl ValueError
           | Some k \<Rightarrow>
               if var_shape v ! k \<le> ch then Inl IndexError
               else
                 (let b = var_isel v k ch
                  in if length (var_shape b) < 2 then Inl IndexError
                     else if hd (var_shape b) = 0 then Inl IndexError
                     else Inr (np_nanmean np (np_diff np (var_isel b 0 0))))))"

text \<open>The loop over the channels: it stops at the first channel that raises.\<close>

fun range_sample_nums :: "numpy \<Rightarrow> dataset \<Rightarrow> nat list \<Rightarrow> int list \<Rightarrow> error + int list" where
  "range_sample_nums np ds [] acc = Inr acc"
| "range_sample_nums np ds (ch # chs) acc =
     (case mean_diff np ds ch of
        Inl e \<Rightarrow> Inl e
      | Inr m \<Rightarrow>
          if isnan m then Inl ValueError
          else (case py_int (true_divide np (Fin 10) m) of
                  Inl e \<Rightarrow> Inl e
                | Inr k \<Rightarrow> range_sample_nums np ds chs (acc @ [k])))"

text \<open>
  \<open>apply_remove_background_noise\<close>. The first argument is NumPy, the second stands
  for echopype's \<open>remove_background_noise\<close>; neither is part of this repository.
\<close>

definition apply_remove_background_noise ::
  "numpy \<Rightarrow> (dataset \<Rightarrow> int \<Rightarrow> int \<Rightarrow> fl \<Rightarrow> fl \<Rightarrow> error + 'r) \<Rightarrow>
   dataset \<Rightarrow> int \<Rightarrow> int option \<Rightarrow> fl \<Rightarrow> fl \<Rightarrow> error + 'r" where
  "apply_remove_background_noise np remove_background_noise ds_Sv ping_num range_sample_num
      noise_max SNR_threshold =
     (case range_sample_num of
        Some n \<Rightarrow> remove_background_noise ds_Sv ping_num n noise_max SNR_threshold
      | None \<Rightarrow>
          (case ds_sizes ds_Sv ''channel'' of
             None \<Rightarrow> Inl KeyError
           | Some nch \<Rightarrow>
               (case range_sample_nums np ds_Sv [0..<nch] [] of
                  Inl e \<Rightarrow> Inl e
                | Inr ks \<Rightarrow>
                    (case py_min ks of
                       Inl e \<Rightarrow> Inl e
                     | Inr k \<Rightarrow>
                         remove_background_noise ds_Sv ping_num k noise_max SNR_threshold))))"

text \<open>Two channels, two pings, four range samples. First ping: \<open>0, 1, NaN, 3\<close> on the
  first channel (the only increment that is not NaN is 1) and \<open>0, 2, 4, 6\<close> on the second.
  Second ping: \<open>0, 5, 10, 15\<close> on both.\<close>

definition echo_two_channels :: dataset where
  "echo_two_channels =
     \<lparr>data_vars =
        [(''echo_range'', FloatVar
           \<lparr>dims = [''channel'', ''ping_time'', ''range_sample''], shape = [2, 2, 4],
            vals = (\<lambda>idx. case idx of
                       [c, p, r] \<Rightarrow>
                         (if p = 0 then
                            (if c = 0 then (if r = 2 then NaN else Fin (real r))
                             else Fin (2 * real r))
                          else Fin (5 * real r))
                     | _ \<Rightarrow> NaN)\<rparr>)],
      coords = [], attrs = []\<rparr>"

text \<open>Two channels: the first has a constant range (increment 0), the second is all
  NaN.\<close>

definition echo_flat_then_nan :: dataset where
  "echo_flat_then_nan =
     \<lparr>data_vars =
        [(''echo_range'', FloatVar
           \<lparr>dims = [''channel'', ''ping_time'', ''range_sample''], shape = [2, 1, 2],
            vals = (\<lambda>idx. case idx of [c, p, r] \<Rightarrow> (if c = 0 then Fin 1 else NaN)
                     | _ \<Rightarrow> NaN)\<rparr>)],
      coords = [], attrs = []\<rparr>"

text \<open>Two channels: increment 2, then all NaN.\<close>

definition echo_good_then_nan :: dataset where
  "echo_good_then_nan =
     \<lparr>data_vars =
        [(''echo_range'', FloatVar
           \<lparr>dims = [''channel'', ''ping_time'', ''range_sample''], shape = [2, 1, 3],
            vals = (\<lambda>idx. case idx of
                       [c, p, r] \<Rightarrow> (if c = 0 then Fin (2 * real r) else NaN)
                     | _ \<Rightarrow> NaN)\<rparr>)],
      coords = [], attrs = []\<rparr>"

section \<open>Enriching the Sv dataset\<close>

text \<open>
  Python passes datasets by reference, and \<open>enrich_sv_dataset\<close> returns the very
  object it was given. The state therefore holds a store of dataset objects (a reference
  is an address below \<open>next_ref\<close>) and the warnings issued so far. Every \<open>xarray\<close>
  operation \<open>add_depth\<close> uses reads its receiver; \<open>assign_coords\<close> builds a new
  dataset object.
\<close>

record pystate =
  heap :: "nat \<Rightarrow> dataset"
  next_ref :: nat
  warnings :: "error list"

definition alloc :: "pystate \<Rightarrow> dataset \<Rightarrow> pystate \<times> nat" where
  "alloc s d = (s\<lparr>heap := (heap s)(next_ref s := d), next_ref := Suc (next_ref s)\<rparr>, next_ref s)"

datatype pyval = PyFloat fl | PyBool bool | PyStr string | PyNone

fun truthy :: "pyval \<Rightarrow> bool" where
  "truthy (PyFloat x) = (x \<noteq> Fin 0)"
| "truthy (PyBool b) = b"
| "truthy (PyStr s) = (s \<noteq> [])"
| "truthy PyNone = False"

text \<open>A value usable in float arithmetic; a string or \<open>None\<close> raises \<open>TypeError\<close>
  there.\<close>

fun as_number :: "pyval \<Rightarrow> error + fl" where
  "as_number (PyFloat x) = Inr x"
| "as_number (PyBool b) = Inr (if b then Fin 1 else Fin 0)"
| "as_number v = Inl TypeError"

text \<open>\<open>{k: kwargs[k] for k in keys if k in kwargs}\<close>\<close>

definition select_kwargs :: "string list \<Rightarrow> (string \<times> pyval) list \<Rightarrow> (string \<times> pyval) list" where
  "select_kwargs keys kwargs =
     concat (map (\<lambda>k. case map_of kwargs k of None \<Rightarrow> [] | Some v \<Rightarrow> [(k, v)]) keys)"

text \<open>A keyword parameter with its default.\<close>

definition kwarg :: "(string \<times> pyval) list \<Rightarrow> string \<Rightarrow> pyval \<Rightarrow> pyval" where
  "kwarg args k d = (case map_of args k of None \<Rightarrow> d | Some v \<Rightarrow> v)"

text \<open>\<open>ds[name].values[0]\<close>: the first label of a coordinate. It raises \<open>IndexError\<close>
  on a scalar and on an empty coordinate. (Coordinates have one axis; for more axes the
  model reads the first element.)\<close>

definition first_label :: "dataset \<Rightarrow> string \<Rightarrow> error + fl" where
  "first_label ds name =
     (case ds_getitem ds name of
        Inl e \<Rightarrow> Inl e
      | Inr v \<Rightarrow>
          if var_shape v = [] \<or> hd (var_shape v) = 0 then Inl IndexError
          else Inr (vals (var_floats v) (replicate (length (var_shape v)) 0)))"

text \<open>\<open>a.sel(d=label)\<close> where the label is the first one of coordinate \<open>d\<close>: the
  selection is position 0 of that dimension, and \<open>KeyError\<close> when the array has no such
  dimension. (A first label that occurs twice would keep the dimension; such coordinates
  are outside the model.)\<close>

definition sel_first :: "fl ndarray \<Rightarrow> string \<Rightarrow> error + fl ndarray" where
  "sel_first a d =
     (case index_of d (dims a) of
        None \<Rightarrow> Inl KeyError
      | Some k \<Rightarrow> if shape a ! k = 0 then Inl KeyError else Inr (isel a k 0))"

text \<open>\<open>ds.assign_coords(range_sample=xs)\<close>: a new dataset whose \<open>range_sample\<close>
  coordinate holds \<open>xs\<close>; \<open>ValueError\<close> when the dataset has that dimension with another
  length. The receiver is not changed.\<close>

definition assign_coords_range_sample :: "dataset \<Rightarrow> fl list \<Rightarrow> error + dataset" where
  "assign_coords_range_sample ds xs =
     (let c = FloatVar \<lparr>dims = [''range_sample''], shape = [length xs],
                        vals = (\<lambda>idx. xs ! hd idx)\<rparr>
      in case ds_sizes ds ''range_sample'' of
           Some n \<Rightarrow>
             if n \<noteq> length xs then Inl ValueError
             else Inr (ds\<lparr>data_vars := filter (\<lambda>p. fst p \<noteq> ''range_sample'') (data_vars ds),
                           coords := filter (\<lambda>p. fst p \<noteq> ''range_sample'') (coords ds)
                                       @ [(''range_sample'', c)]\<rparr>)
         | None \<Rightarrow> Inr (ds\<lparr>coords := coords ds @ [(''range_sample'', c)]\<rparr>))"

text \<open>
  \<open>add_depth\<close>. The selected \<open>echo_range\<close> must be left with exactly one axis to be a
  list of numbers (a scalar cannot be iterated; rows fail in \<open>assign_coords\<close>). The list
  comprehension evaluates \<open>tilt\<close> and \<open>depth_offset\<close> once per element, so a value of
  the wrong type raises only when there is an element.
\<close>

definition add_depth ::
  "pystate \<Rightarrow> nat \<Rightarrow> pyval \<Rightarrow> pyval \<Rightarrow> pyval \<Rightarrow> error + pystate \<times> nat" where
  "add_depth s Sv depth_offset tilt downward =
     (let ds = heap s Sv;
          mult = (if truthy downward then Fin 1 else Fin (- 1))
      in case first_label ds ''channel'' of
           Inl e \<Rightarrow> Inl e
         | Inr first_channel \<Rightarrow>
        (case first_label ds ''ping_time'' of
           Inl e \<Rightarrow> Inl e
         | Inr first_ping_time \<Rightarrow>
        (case ds_getitem ds ''echo_range'' of
           Inl e \<Rightarrow> Inl e
         | Inr v \<Rightarrow>
        (case sel_first (var_floats v) ''channel'' of
           Inl e \<Rightarrow> Inl e
         | Inr a \<Rightarrow>
        (case sel_first a ''ping_time'' of
           Inl e \<Rightarrow> Inl e
         | Inr b \<Rightarrow>
             if length (shape b) = 0 then Inl TypeError
             else if length (shape b) \<noteq> 1 then Inl ValueError
             else
               (let selected_echo_range = map (\<lambda>i. vals b [i]) [0..<hd (shape b)]
                in if selected_echo_range = [] then
                     (case assign_coords_range_sample ds [] of
                        Inl e \<Rightarrow> Inl e
                      | Inr new \<Rightarrow> Inr (alloc s new))
                   else
                     (case as_number tilt of
                        Inl e \<Rightarrow> Inl e
                      | Inr t \<Rightarrow>
                     (case as_number depth_offset of
                        Inl e \<Rightarrow> Inl e
                      | Inr off \<Rightarrow>
                     (case assign_coords_range_sample ds
                             (map (\<lambda>value.
                                     fl_add (fl_mul (fl_mul mult value)
                                        (fl_cos (fl_mul (fl_div t (Fin 180)) (Fin np_pi)))) off)
                                selected_echo_range) of
                        Inl e \<Rightarrow> Inl e
                      | Inr new \<Rightarrow> Inr (alloc s new))))))))))"

text \<open>
  \<open>enrich_sv_dataset\<close>. The call of \<open>add_depth\<close> is a statement: what it returns is
  dropped, and an exception becomes a warning (which, under Python's default warning
  filter, is recorded and does not raise). The location and split-beam steps are
  commented out in the source; their keyword arguments are still collected.
\<close>

definition enrich_sv_dataset ::
  "pystate \<Rightarrow> nat \<Rightarrow> 'e \<Rightarrow> (string \<times> pyval) list \<Rightarrow> pystate \<times> nat" where
  "enrich_sv_dataset s sv echodata kwargs =
     (let depth_args = select_kwargs [''depth_offset'', ''tilt'', ''downward''] kwargs;
          location_args = select_kwargs [''nmea_sentence''] kwargs;
          splitbeam_args = select_kwargs [''waveform_mode'', ''encode_mode'',
              ''pulse_compression'', ''storage_options'', ''return_dataset''] kwargs;
          enriched_sv = sv
      in case add_depth s enriched_sv
                (kwarg depth_args ''depth_offset'' (PyFloat (Fin 0)))
                (kwarg depth_args ''tilt'' (PyFloat (Fin 0)))
                (kwarg depth_args ''downward'' (PyBool True)) of
           Inl e \<Rightarrow> (s\<lparr>warnings := warnings s @ [e]\<rparr>, enriched_sv)
         | Inr (s', depth_ref) \<Rightarrow> (s', enriched_sv))"

text \<open>One channel, one ping, two range samples at 1 m and 2 m.\<close>

definition sv_one_ping :: dataset where
  "sv_one_ping =
     \<lparr>data_vars =
        [(''Sv'', FloatVar
           \<lparr>dims = [''channel'', ''ping_time'', ''range_sample''], shape = [1, 1, 2],
            vals = (\<lambda>idx. Fin (- 70))\<rparr>),
         (''echo_range'', FloatVar
           \<lparr>dims = [''channel'', ''ping_time'', ''range_sample''], shape = [1, 1, 2],
            vals = (\<lambda>idx. Fin (1 + real (last idx)))\<rparr>)],
      coords =
        [(''channel'', FloatVar \<lparr>dims = [''channel''], shape = [1], vals = (\<lambda>idx. Fin 1)\<rparr>),
         (''ping_time'', FloatVar \<lparr>dims = [''ping_time''], shape = [1], vals = (\<lambda>idx. Fin 1)\<rparr>)],
      attrs = [(''sonar_model'', ''EK60'')]\<rparr>"

text \<open>A dataset with no variables at all: \<open>add_depth\<close> raises on it.\<close>

definition empty_dataset :: dataset where
  "empty_dataset = \<lparr>data_vars = [], coords = [], attrs = []\<rparr>"

definition two_objects :: pystate where
  "two_objects =
     \<lparr>heap = (\<lambda>r. if r = 0 then sv_one_ping else empty_dataset), next_ref = 2, warnings = []\<rparr>"

text \<open>What \<open>add_depth\<close> computes on \<open>sv_one_ping\<close> with a depth offset of 5 m.\<close>

definition sv_one_ping_with_depth :: dataset where
  "sv_one_ping_with_depth =
     sv_one_ping\<lparr>coords := coords sv_one_ping @
        [(''range_sample'', FloatVar \<lparr>dims = [''range_sample''], shape = [2],
            vals = (\<lambda>idx. [Fin 6, Fin 7] ! hd idx)\<rparr>)]\<rparr>"

section \<open>Sv interpolation\<close>

text \<open>Modelled from the spec: \<open>db_to_linear\<close> of
  \<open>oceanstream/echodata/sv_interpolation.py\<close>, a module that is not among the source
  files. Section 4.3: \<open>toLinear(x) = 10^(x/10)\<close>, and \<open>toLinear\<close> of NaN is NaN.\<close>

fun db_to_linear :: "fl \<Rightarrow> fl" where
  "db_to_linear NaN = NaN"
| "db_to_linear NInf = Fin 0"
| "db_to_linear (Fin a) = Fin (10 powr (a / 10))"
| "db_to_linear PInf = PInf"

text \<open>Modelled from the spec: \<open>linear_to_db\<close> of the same missing module. Section 4.3:
  \<open>toDecibel(x) = 10 * log10(x)\<close>, and \<open>toDecibel\<close> of non-positive input is NaN.\<close>

fun linear_to_db :: "fl \<Rightarrow> fl" where
  "linear_to_db NaN = NaN"
| "linear_to_db NInf = NaN"
| "linear_to_db (Fin a) = (if a \<le> 0 then NaN else Fin (10 * log 10 a))"
| "linear_to_db PInf = PInf"

text \<open>A function applied to every element; dimensions and shape stay.\<close>

definition map_vals :: "('a \<Rightarrow> 'b) \<Rightarrow> 'a ndarray \<Rightarrow> 'b ndarray" where
  "map_vals f a = \<lparr>dims = dims a, shape = shape a, vals = (\<lambda>idx. f (vals a idx))\<rparr>"

text \<open>Modelled from the spec: the Mask Accessor of the missing module (section 4.2).
  The masks of a dataset are its boolean data variables whose names begin with
  \<open>mask_\<close> and whose dimensions are among those of Sv (section 3: a mask is a boolean
  array over the same dimensions or a subset).\<close>

definition sv_masks :: "dataset \<Rightarrow> string list \<Rightarrow> bool ndarray list" where
  "sv_masks ds sv_dims =
     concat (map (\<lambda>(name, v). case v of
                    BoolVar b \<Rightarrow>
                      if take 5 name = ''mask_'' \<and> set (dims b) \<subseteq> set sv_dims then [b] else []
                  | FloatVar a \<Rightarrow> []
                  | IntVar sg w c \<Rightarrow> [])
               (data_vars ds))"

text \<open>Modelled from the spec: a mask read at an index of Sv, by dimension name.\<close>

definition mask_at :: "string list \<Rightarrow> bool ndarray \<Rightarrow> nat list \<Rightarrow> bool" where
  "mask_at sv_dims b idx =
     vals b (map (\<lambda>d. case index_of d sv_dims of Some k \<Rightarrow> idx ! k | None \<Rightarrow> 0) (dims b))"

text \<open>Modelled from the spec: applying the masks (section 4.2). A sample is invalid if
  any mask flags it; invalid samples become NaN in a new array; without masks Sv is taken
  as given.\<close>

definition apply_masks :: "dataset \<Rightarrow> fl ndarray \<Rightarrow> fl ndarray" where
  "apply_masks ds sv =
     \<lparr>dims = dims sv, shape = shape sv,
      vals = (\<lambda>idx. if list_ex (\<lambda>b. mask_at (dims sv) b idx) (sv_masks ds (dims sv))
                     then NaN else vals sv idx)\<rparr>"

text \<open>Modelled from the spec: the two interpolation methods a caller can select
  (sections 4.4 and 6).\<close>

datatype interp_method = Linear | Nearest

text \<open>Modelled from the spec: the nearest valid (not NaN) neighbours of position \<open>i\<close> on
  a one-dimensional series (section 4.4, step 2).\<close>

definition prev_valid :: "fl list \<Rightarrow> nat \<Rightarrow> nat option" where
  "prev_valid lane i = List.find (\<lambda>j. \<not> isnan (lane ! j)) (rev [0..<i])"

definition next_valid :: "fl list \<Rightarrow> nat \<Rightarrow> nat option" where
  "next_valid lane i = List.find (\<lambda>j. \<not> isnan (lane ! j)) [Suc i..<length lane]"

text \<open>Modelled from the spec: one-dimensional gap filling (section 4.4, steps 2 and 3).
  A valid sample is kept. Between two valid neighbours, \<open>linear\<close> interpolates by
  position and \<open>nearest\<close> takes the closer one, the preceding one on a tie. With a valid
  neighbour on one side only, the value is that neighbour's when edge-fill is requested
  and NaN otherwise. With no valid neighbour it is NaN.\<close>

definition interp_at :: "interp_method \<Rightarrow> bool \<Rightarrow> fl list \<Rightarrow> nat \<Rightarrow> fl" where
  "interp_at m with_edge_fill lane i =
     (if \<not> isnan (lane ! i) then lane ! i
      else case (prev_valid lane i, next_valid lane i) of
             (Some l, Some r) \<Rightarrow>
               (case m of
                  Linear \<Rightarrow>
                    fl_add (lane ! l)
                      (fl_mul (fl_sub (lane ! r) (lane ! l))
                         (Fin (real (i - l) / real (r - l))))
                | Nearest \<Rightarrow> if i - l \<le> r - i then lane ! l else lane ! r)
           | (Some l, None) \<Rightarrow> if with_edge_fill then lane ! l else NaN
           | (None, Some r) \<Rightarrow> if with_edge_fill then lane ! r else NaN
           | (None, None) \<Rightarrow> NaN)"

text \<open>Modelled from the spec: the positions of the series through \<open>idx\<close> along the
  primary axis of one channel's slice: one per index of that axis, all other indices
  fixed. A slice without that axis has only the position itself.\<close>

definition slice_lane :: "'a ndarray \<Rightarrow> string \<Rightarrow> nat list \<Rightarrow> nat list list" where
  "slice_lane a axis idx =
     (case index_of axis (dims a) of
        None \<Rightarrow> [idx]
      | Some k \<Rightarrow> map (\<lambda>j. idx[k := j]) [0..<shape a ! k])"

text \<open>Modelled from the spec: the Gap Interpolator on one channel's slice (section 4.4,
  step 2): every series along the primary axis (one per range bin) is filled on its own.
  A slice without that axis has nothing to fill.\<close>

definition fill_slice :: "fl ndarray \<Rightarrow> string \<Rightarrow> interp_method \<Rightarrow> bool \<Rightarrow> fl ndarray" where
  "fill_slice a axis m with_edge_fill =
     (case index_of axis (dims a) of
        None \<Rightarrow> a
      | Some k \<Rightarrow>
          \<lparr>dims = dims a, shape = shape a,
           vals = (\<lambda>idx. interp_at m with_edge_fill
                            (map (vals a) (slice_lane a axis idx)) (idx ! k))\<rparr>)"

text \<open>An index of a slice taken at position \<open>c\<close> of axis \<open>k\<close>, and back.\<close>

definition drop_axis :: "nat \<Rightarrow> nat list \<Rightarrow> nat list" where
  "drop_axis k idx = take k idx @ drop (Suc k) idx"

definition put_axis :: "nat \<Rightarrow> nat \<Rightarrow> nat list \<Rightarrow> nat list" where
  "put_axis k c idx = take k idx @ c # drop k idx"

text \<open>Modelled from the spec: the Gap Interpolator on the Sv grid (sections 4.4, 5
  and 9): the grid is split into one slice per channel, every slice is filled by itself,
  and the value at an index is read from the filled slice of its channel. No value
  depends on another channel. A grid without a channel axis is one slice.\<close>

definition gap_fill :: "fl ndarray \<Rightarrow> string \<Rightarrow> interp_method \<Rightarrow> bool \<Rightarrow> fl ndarray" where
  "gap_fill a axis m with_edge_fill =
     (case index_of ''channel'' (dims a) of
        None \<Rightarrow> fill_slice a axis m with_edge_fill
      | Some kc \<Rightarrow>
          \<lparr>dims = dims a, shape = shape a,
           vals = (\<lambda>idx. vals (fill_slice (isel a kc (idx ! kc)) axis m with_edge_fill)
                            (drop_axis kc idx))\<rparr>)"

text \<open>Modelled from the spec: the positions, in the grid, of the series that decides the
  value at \<open>idx\<close>: the series through \<open>idx\<close> along the primary axis inside the slice of
  its channel.\<close>

definition lane_positions :: "'a ndarray \<Rightarrow> string \<Rightarrow> nat list \<Rightarrow> nat list list" where
  "lane_positions a axis idx =
     (case index_of ''channel'' (dims a) of
        None \<Rightarrow> slice_lane a axis idx
      | Some kc \<Rightarrow>
          map (put_axis kc (idx ! kc))
            (slice_lane (isel a kc (idx ! kc)) axis (drop_axis kc idx)))"

text \<open>Modelled from the spec: the interpolated Sv (section 2, data flow): masks applied,
  converted to linear power, gaps filled, converted back to decibels.\<close>

definition sv_interpolated :: "dataset \<Rightarrow> variable \<Rightarrow> string \<Rightarrow> interp_method \<Rightarrow> bool \<Rightarrow> fl ndarray" where
  "sv_interpolated ds v axis m with_edge_fill =
     map_vals linear_to_db
       (gap_fill (map_vals db_to_linear (apply_masks ds (var_floats v))) axis m with_edge_fill)"

text \<open>Modelled from the spec: the Dataset Loader (sections 4.1 and 6). The input is a
  dataset or a path; a path must lead to one of the two supported containers.\<close>

datatype container = SingleFile dataset | DirectoryStore dataset | OtherFile

datatype sv_source = FromDataset dataset | FromPath string

definition load_dataset :: "(string \<Rightarrow> container option) \<Rightarrow> sv_source \<Rightarrow> error + dataset" where
  "load_dataset files src =
     (case src of
        FromDataset ds \<Rightarrow> Inr ds
      | FromPath p \<Rightarrow>
          (case files p of
             Some (SingleFile ds) \<Rightarrow> Inr ds
           | Some (DirectoryStore ds) \<Rightarrow> Inr ds
           | Some OtherFile \<Rightarrow> Inl FileNotFoundError
           | None \<Rightarrow> Inl FileNotFoundError))"

text \<open>Storing a data variable under a name: replaced in place when the name exists,
  appended otherwise.\<close>

fun store_var :: "string \<Rightarrow> variable \<Rightarrow> (string \<times> variable) list \<Rightarrow> (string \<times> variable) list" where
  "store_var name v [] = [(name, v)]"
| "store_var name v (p # ps) = (if fst p = name then (name, v) # ps else p # store_var name v ps)"

text \<open>Modelled from the spec: \<open>interpolate_sv\<close> of the missing module (sections 4.1
  and 4.4). After loading, a dataset without an \<open>Sv\<close> variable or without a \<open>channel\<close>
  dimension is refused with the missing-field error (\<open>KeyError\<close> in the tests) before
  anything is computed; the result is stored as \<open>Sv_interpolated\<close> and nothing else of
  the dataset is touched.\<close>

definition interpolate_sv ::
  "(string \<Rightarrow> container option) \<Rightarrow> sv_source \<Rightarrow> string \<Rightarrow> interp_method \<Rightarrow> bool \<Rightarrow> error + dataset" where
  "interpolate_sv files src axis m with_edge_fill =
     (case load_dataset files src of
        Inl e \<Rightarrow> Inl e
      | Inr ds \<Rightarrow>
          (case map_of (data_vars ds) ''Sv'' of
             None \<Rightarrow> Inl KeyError
           | Some v \<Rightarrow>
               (case ds_sizes ds ''channel'' of
                  None \<Rightarrow> Inl KeyError
                | Some n \<Rightarrow>
                    Inr (ds\<lparr>data_vars :=
                           store_var ''Sv_interpolated''
                             (FloatVar (sv_interpolated ds v axis m with_edge_fill))
                             (data_vars ds)\<rparr>))))"

text \<open>An index inside a shape.\<close>

definition in_bounds :: "nat list \<Rightarrow> nat list \<Rightarrow> bool" where
  "in_bounds shp idx = list_all2 (<) idx shp"

text \<open>The index lies on channel \<open>c\<close> (an array without a channel axis is one slice).\<close>

definition on_channel :: "'a ndarray \<Rightarrow> nat \<Rightarrow> nat list \<Rightarrow> bool" where
  "on_channel a c idx =
     (case index_of ''channel'' (dims a) of None \<Rightarrow> True | Some k \<Rightarrow> idx ! k = c)"

text \<open>The test's dataset: Sv over five pings and five channels, all NaN.\<close>

definition all_nan_sv :: variable where
  "all_nan_sv = FloatVar \<lparr>dims = [''ping_time'', ''channel''], shape = [5, 5],
                           vals = (\<lambda>idx. NaN)\<rparr>"

definition all_nan_dataset :: dataset where
  "all_nan_dataset = \<lparr>data_vars = [(''Sv'', all_nan_sv)], coords = [], attrs = []\<rparr>"

text \<open>Three pings, two channels: the first channel is all NaN, the second holds
  \<open>-70, NaN, -60\<close>.\<close>

definition one_dead_sv :: variable where
  "one_dead_sv = FloatVar \<lparr>dims = [''ping_time'', ''channel''], shape = [3, 2],
     vals = (\<lambda>idx. if idx = [0, 1] then Fin (- 70) else if idx = [2, 1] then Fin (- 60)
                     else NaN)\<rparr>"

definition one_dead_channel :: dataset where
  "one_dead_channel = \<lparr>data_vars = [(''Sv'', one_dead_sv)], coords = [], attrs = []\<rparr>"

section \<open>Theorems: rounding\<close>

lemma round_half_even_of_int: "round_half_even (of_int i) = i"
  by (simp add: round_half_even_def)

lemma float64_zero: "float64 0 = Fin 0"
  by (simp add: float64_def)

text \<open>Small whole numbers are doubles: rounding leaves them as they are.\<close>

lemma float64_nat:
  assumes lo: "2 ^ k \<le> n" and hi: "n < 2 ^ (k + 1)" and k: "k \<le> 52"
  shows "float64 (real n) = Fin (real n)"
proof -
  have pos: "0 < n"
  proof (rule ccontr)
    assume "\<not> 0 < n"
    with lo show False by simp
  qed
  have e: "\<lfloor>log 2 (real n)\<rfloor> = int k"
    using floor_log_nat_eq_if [OF lo hi] by simp
  have ulp: "(2::real) powr (of_int (int k) - 52) = 1 / 2 ^ (52 - k)"
  proof -
    have "of_int (int k) - (52::real) = - real (52 - k)" using k by simp
    then show ?thesis by (simp only: powr_minus_divide powr_realpow zero_less_numeral)
  qed
  have quot: "real n / (1 / 2 ^ (52 - k)) = of_int (int (n * 2 ^ (52 - k)))"
    by simp
  have small: "real n < 2 ^ 1024"
  proof -
    have "(2::nat) ^ (k + 1) \<le> 2 ^ 53"
      using k by (intro power_increasing) simp_all
    with hi have "n < 2 ^ 53" by simp
    then have "real n < real (2 ^ 53)" by (simp only: of_nat_less_iff)
    then have "real n < 2 ^ 53" by simp
    also have "\<dots> < (2::real) ^ 1024" by simp
    finally show ?thesis .
  qed
  have x0: "real n \<noteq> 0" using pos by simp
  have E: "max \<lfloor>log 2 \<bar>real n\<bar>\<rfloor> (- 1022) = int k"
    using e by simp
  have Y: "of_int (round_half_even (real n / 2 powr (of_int (int k) - 52)))
      * 2 powr (of_int (int k) - 52) = real n"
    unfolding ulp quot round_half_even_of_int by simp
  have nov: "\<not> 2 ^ 1024 \<le> \<bar>real n\<bar>"
    using small by (simp only: abs_of_nat not_le)
  show ?thesis
    unfolding float64_def Let_def E Y using x0 nov by (simp only: if_False)
qed

lemma float64_small:
  "float64 1 = Fin 1" "float64 2 = Fin 2" "float64 4 = Fin 4" "float64 5 = Fin 5"
  "float64 6 = Fin 6" "float64 7 = Fin 7" "float64 10 = Fin 10"
  using float64_nat [of 0 1] float64_nat [of 1 2] float64_nat [of 2 4] float64_nat [of 2 5]
    float64_nat [of 2 6] float64_nat [of 2 7] float64_nat [of 3 10]
  by simp_all

lemma floor_log2:
  assumes "0 < x" and "2 powr (of_int k) \<le> x" and "x < 2 powr (of_int k + 1)"
  shows "\<lfloor>log 2 x\<rfloor> = k"
proof (rule floor_unique)
  show "of_int k \<le> log 2 x"
    using assms by (simp add: le_log_iff)
  show "log 2 x < of_int k + 1"
    using assms by (simp add: log_less_iff)
qed

lemma float64_normal:
  assumes x: "x \<noteq> 0" and e: "\<lfloor>log 2 \<bar>x\<bar>\<rfloor> = e" and normal: "- 1022 \<le> e"
    and n: "round_half_even (x / 2 powr (of_int e - 52)) = n"
    and y: "of_int n * 2 powr (of_int e - 52) = y"
  shows "float64 x = (if 2 ^ 1024 \<le> \<bar>y\<bar> then (if 0 < x then PInf else NInf) else Fin y)"
proof -
  have m: "max e (- 1022) = e" using normal by simp
  show ?thesis
    unfolding float64_def Let_def e m n y using x by (simp only: if_False)
qed

text \<open>Two divisions as \<open>10 / mean_diff\<close> meets them. The double nearest to 0.1 is
  a little above 0.1, and 10 divided by it rounds to exactly 100. Ten divided by
  \<open>2^-1030\<close> is beyond the largest double.\<close>

lemma divide_by_tenth:
  "fl_div (Fin 10) (Fin (3602879701896397 / 36028797018963968)) = Fin 100"
proof -
  let ?x = "10 / (3602879701896397 / 36028797018963968) :: real"
  have x: "?x \<noteq> 0" by simp
  have e: "\<lfloor>log 2 \<bar>?x\<bar>\<rfloor> = 6"
    by (rule floor_log2) (simp_all add: powr_numeral)
  have ulp: "(2::real) powr (of_int 6 - 52) = 1 / 2 ^ 46"
    by (simp add: powr_minus_divide powr_numeral)
  have n: "round_half_even (?x / 2 powr (of_int 6 - 52)) = 7036874417766400"
    unfolding ulp by (simp add: round_half_even_def Let_def)
  have y: "of_int 7036874417766400 * (2::real) powr (of_int 6 - 52) = 100"
    unfolding ulp by simp
  have "float64 ?x = Fin 100"
    using float64_normal [OF x e _ n y] by simp
  then show ?thesis by simp
qed

lemma divide_by_tiny: "fl_div (Fin 10) (Fin (1 / 2 ^ 1030)) = PInf"
proof -
  let ?x = "10 / (1 / 2 ^ 1030) :: real"
  have x: "?x \<noteq> 0" by simp
  have e: "\<lfloor>log 2 \<bar>?x\<bar>\<rfloor> = 1033"
    by (rule floor_log2) (simp_all add: powr_numeral)
  have ulp: "(2::real) powr (of_int 1033 - 52) = 2 ^ 981"
    by (simp add: powr_numeral)
  have n: "round_half_even (?x / 2 powr (of_int 1033 - 52)) = 5629499534213120"
    unfolding ulp by (simp add: round_half_even_def Let_def)
  have y: "of_int 5629499534213120 * (2::real) powr (of_int 1033 - 52) = 10 * 2 ^ 1030"
    unfolding ulp by simp
  have "float64 ?x = PInf"
    using float64_normal [OF x e _ n y] by simp
  then show ?thesis by simp
qed

section \<open>Theorems: the default \<open>range_sample_num\<close>\<close>

lemma range_sample_nums_nan:
  "map (mean_diff np ds) chs = map Inr (pre @ NaN # post) \<Longrightarrow>
   \<forall>m\<in>set pre. m \<noteq> NaN \<and> (\<exists>q. py_int (true_divide np (Fin 10) m) = Inr q) \<Longrightarrow>
   range_sample_nums np ds chs acc = Inl ValueError"
proof (induction pre arbitrary: chs acc)
  case Nil
  then obtain c cs where "chs = c # cs" and "mean_diff np ds c = Inr NaN"
    by (cases chs) auto
  then show ?case by (simp add: isnan_def)
next
  case (Cons m pre)
  from Cons.prems(1) obtain c cs where chs: "chs = c # cs" and m: "mean_diff np ds c = Inr m"
    and rest: "map (mean_diff np ds) cs = map Inr (pre @ NaN # post)"
    by (cases chs) auto
  from Cons.prems(2) obtain q where ok: "m \<noteq> NaN"
    and q: "py_int (true_divide np (Fin 10) m) = Inr q"
    and pre: "\<forall>x\<in>set pre. x \<noteq> NaN \<and> (\<exists>q. py_int (true_divide np (Fin 10) x) = Inr q)"
    by auto
  from Cons.IH [OF rest pre] show ?case
    by (simp add: chs m q ok isnan_def)
qed

lemma range_sample_nums_all:
  "map (mean_diff np ds) chs = map Inr ms \<Longrightarrow>
   \<forall>m\<in>set ms. m \<noteq> NaN \<and> (\<exists>q. py_int (true_divide np (Fin 10) m) = Inr q) \<Longrightarrow>
   \<exists>ks. map (\<lambda>m. py_int (true_divide np (Fin 10) m)) ms = map Inr ks \<and>
        range_sample_nums np ds chs acc = Inr (acc @ ks)"
proof (induction ms arbitrary: chs acc)
  case Nil
  then show ?case by simp
next
  case (Cons m ms)
  from Cons.prems(1) obtain c cs where chs: "chs = c # cs" and m: "mean_diff np ds c = Inr m"
    and rest: "map (mean_diff np ds) cs = map Inr ms"
    by (cases chs) auto
  from Cons.prems(2) obtain k where ok: "m \<noteq> NaN"
    and k: "py_int (true_divide np (Fin 10) m) = Inr k"
    and tl: "\<forall>x\<in>set ms. x \<noteq> NaN \<and> (\<exists>q. py_int (true_divide np (Fin 10) x) = Inr q)"
    by auto
  from Cons.IH [OF rest tl, of "acc @ [k]"] obtain ks
    where ks: "map (\<lambda>m. py_int (true_divide np (Fin 10) m)) ms = map Inr ks"
      and run: "range_sample_nums np ds cs (acc @ [k]) = Inr ((acc @ [k]) @ ks)"
    by blast
  have "map (\<lambda>m. py_int (true_divide np (Fin 10) m)) (m # ms) = map Inr (k # ks)"
    by (simp add: k ks)
  moreover have "range_sample_nums np ds chs acc = Inr (acc @ k # ks)"
    by (simp add: chs m k ok isnan_def run)
  ultimately show ?case by blast
qed

lemma py_min_Min: "ks \<noteq> [] \<Longrightarrow> py_min ks = Inr (Min (set ks))"
proof -
  assume "ks \<noteq> []"
  then obtain k rest where ks: "ks = k # rest"
    by (cases ks) auto
  show ?thesis
    using Min.set_eq_fold [of k rest] by (simp add: ks)
qed

text \<open>
  Claim C10, as the code has it, for every NumPy. Let the dataset have \<open>n\<close> channels
  whose mean increments (\<open>np.nanmean\<close> of \<open>np.diff\<close> of the first ping's
  \<open>echo_range\<close>) are \<open>ms\<close>, and let no \<open>range_sample_num\<close> be given. The channels
  are examined in order. If channel \<open>k\<close> has a NaN mean increment and, for every
  earlier channel, the mean increment is not NaN and \<open>int(10 / mean increment)\<close> is
  defined, the call raises \<open>ValueError\<close>, whatever the noise removal would do (it is not
  reached). If there is at least one channel and, for every channel, the mean increment
  is not NaN and \<open>int(10 / mean increment)\<close> is defined, the noise removal is called with
  the minimum over the channels of \<open>int(10 / mean increment)\<close> as \<open>range_sample_num\<close>.
  (\<open>int\<close> is not defined on an infinite quotient, which a zero or very small increment
  gives.)
\<close>

theorem default_range_sample_num:
  assumes sizes: "ds_sizes ds ''channel'' = Some n"
    and means: "map (mean_diff np ds) [0..<n] = map Inr ms"
  shows "(\<forall>k. k < n \<and> ms ! k = NaN \<and>
              (\<forall>j<k. ms ! j \<noteq> NaN \<and> (\<exists>q. py_int (true_divide np (Fin 10) (ms ! j)) = Inr q))
            \<longrightarrow> apply_remove_background_noise np rbn ds ping_num None noise_max snr
                  = Inl ValueError) \<and>
         (0 < n \<and>
            (\<forall>j<n. ms ! j \<noteq> NaN \<and> (\<exists>q. py_int (true_divide np (Fin 10) (ms ! j)) = Inr q))
            \<longrightarrow> (\<exists>ks. map (\<lambda>m. py_int (true_divide np (Fin 10) m)) ms = map Inr ks \<and>
                   apply_remove_background_noise np rbn ds ping_num None noise_max snr =
                     rbn ds ping_num (Min (set ks)) noise_max snr))"
proof (intro conjI allI impI)
  have len: "length ms = n"
    using arg_cong [OF means, of length] by simp
  {
    fix k
    assume k: "k < n \<and> ms ! k = NaN \<and>
      (\<forall>j<k. ms ! j \<noteq> NaN \<and> (\<exists>q. py_int (true_divide np (Fin 10) (ms ! j)) = Inr q))"
    then have split: "ms = take k ms @ NaN # drop (Suc k) ms"
      using len id_take_nth_drop [of k ms] by simp
    have early: "\<forall>m\<in>set (take k ms).
        m \<noteq> NaN \<and> (\<exists>q. py_int (true_divide np (Fin 10) m) = Inr q)"
    proof
      fix m assume "m \<in> set (take k ms)"
      then obtain j where "j < length (take k ms)" and "take k ms ! j = m"
        by (auto simp: in_set_conv_nth)
      with k len show "m \<noteq> NaN \<and> (\<exists>q. py_int (true_divide np (Fin 10) m) = Inr q)" by auto
    qed
    have "range_sample_nums np ds [0..<n] [] = Inl ValueError"
      using range_sample_nums_nan [of np ds "[0..<n]" "take k ms" "drop (Suc k) ms" "[]"]
        means split early by simp
    then show "apply_remove_background_noise np rbn ds ping_num None noise_max snr
        = Inl ValueError"
      by (simp add: apply_remove_background_noise_def sizes)
  }
  {
    assume ok: "0 < n \<and>
      (\<forall>j<n. ms ! j \<noteq> NaN \<and> (\<exists>q. py_int (true_divide np (Fin 10) (ms ! j)) = Inr q))"
    then have all: "\<forall>m\<in>set ms.
        m \<noteq> NaN \<and> (\<exists>q. py_int (true_divide np (Fin 10) m) = Inr q)"
      using len by (auto simp: in_set_conv_nth)
    from range_sample_nums_all [OF means all, of "[]"] obtain ks
      where ks: "map (\<lambda>m. py_int (true_divide np (Fin 10) m)) ms = map Inr ks"
        and run: "range_sample_nums np ds [0..<n] [] = Inr ks"
      by auto
    have "length ks = n"
      using arg_cong [OF ks, of length] len by simp
    with ok have "ks \<noteq> []" by auto
    then have "apply_remove_background_noise np rbn ds ping_num None noise_max snr =
                 rbn ds ping_num (Min (set ks)) noise_max snr"
      by (simp add: apply_remove_background_noise_def sizes run py_min_Min)
    with ks show "\<exists>ks. map (\<lambda>m. py_int (true_divide np (Fin 10) m)) ms = map Inr ks \<and>
               apply_remove_background_noise np rbn ds ping_num None noise_max snr =
                 rbn ds ping_num (Min (set ks)) noise_max snr"
      by blast
  }
qed

lemmas mean_diff_unfold =
  mean_diff_def numpy_f64_def ds_getitem_def ds_get_def isel_def diff_last_def
  nanmean_f64_def nanmean_def isnan_def fl_sub_def upt_rec float64_zero float64_small

lemma mean_diff_two_channels:
  "map (mean_diff numpy_f64 echo_two_channels) [0..<2] = map Inr [Fin 1, Fin 2]"
  by (simp add: echo_two_channels_def mean_diff_unfold)

lemma mean_diff_good_then_nan:
  "map (mean_diff numpy_f64 echo_good_then_nan) [0..<2] = map Inr [Fin 2, NaN]"
  by (simp add: echo_good_then_nan_def mean_diff_unfold)

lemma mean_diff_flat_then_nan:
  "map (mean_diff numpy_f64 echo_flat_then_nan) [0..<2] = map Inr [Fin 0, NaN]"
  by (simp add: echo_flat_then_nan_def mean_diff_unfold)

lemma default_bins:
  "py_int (true_divide numpy_f64 (Fin 10) (Fin 1)) = Inr 10"
  "py_int (true_divide numpy_f64 (Fin 10) (Fin 2)) = Inr 5"
  "py_int (true_divide numpy_f64 (Fin 10) (Fin 0)) = Inl OverflowError"
  by (simp_all add: numpy_f64_def float64_small)

text \<open>The theorem at two concrete datasets, with NumPy on float64. First pings with
  increments 1 (the NaN sample is skipped) and 2 give \<open>min (10, 5) = 5\<close>; the second
  ping, with increment 5, is not read. An increment of 2 followed by an all-NaN channel
  raises.\<close>

theorem default_range_sample_num_witness:
  "apply_remove_background_noise numpy_f64 (\<lambda>d p r n s. Inr (p, r)) echo_two_channels 40 None
      (Fin (- 125)) (Fin 3) = (Inr (40, 5) :: error + int \<times> int) \<and>
   apply_remove_background_noise numpy_f64 (\<lambda>d p r n s. Inr (p, r)) echo_good_then_nan 40 None
      (Fin (- 125)) (Fin 3) = (Inl ValueError :: error + int \<times> int)"
proof
  have sizes: "ds_sizes echo_two_channels ''channel'' = Some 2"
    by (simp add: ds_sizes_def echo_two_channels_def)
  have ok: "(0::nat) < 2 \<and>
      (\<forall>j<2. [Fin 1, Fin 2] ! j \<noteq> NaN \<and>
         (\<exists>q. py_int (true_divide numpy_f64 (Fin 10) ([Fin 1, Fin 2] ! j)) = Inr q))"
    by (simp add: less_Suc_eq numeral_2_eq_2 nth_Cons' default_bins)
  from default_range_sample_num [OF sizes mean_diff_two_channels,
      of "\<lambda>d p r n s. Inr (p, r)" 40 "Fin (- 125)" "Fin 3", THEN conjunct2, THEN mp, OF ok]
  obtain ks where ks: "map (\<lambda>m. py_int (true_divide numpy_f64 (Fin 10) m)) [Fin 1, Fin 2]
        = map Inr ks"
    and run: "apply_remove_background_noise numpy_f64 (\<lambda>d p r n s. Inr (p, r))
      echo_two_channels 40 None (Fin (- 125)) (Fin 3)
        = (Inr (40, Min (set ks)) :: error + int \<times> int)"
    by blast
  from ks have "map Inr [10, 5] = (map Inr ks :: (error + int) list)"
    by (simp add: default_bins)
  then have "[10, 5] = ks"
    by (rule map_injective) simp
  then have "ks = [10, 5]" by simp
  with run show "apply_remove_background_noise numpy_f64 (\<lambda>d p r n s. Inr (p, r))
      echo_two_channels 40 None (Fin (- 125)) (Fin 3) = (Inr (40, 5) :: error + int \<times> int)"
    by simp
next
  have sizes: "ds_sizes echo_good_then_nan ''channel'' = Some 2"
    by (simp add: ds_sizes_def echo_good_then_nan_def)
  have "(1::nat) < 2 \<and> [Fin 2, NaN] ! 1 = NaN \<and>
        (\<forall>j<1. [Fin 2, NaN] ! j \<noteq> NaN \<and>
           (\<exists>q. py_int (true_divide numpy_f64 (Fin 10) ([Fin 2, NaN] ! j)) = Inr q))"
    by (simp add: default_bins)
  with default_range_sample_num [OF sizes mean_diff_good_then_nan,
      of "\<lambda>d p r n s. Inr (p, r)" 40 "Fin (- 125)" "Fin 3"]
  show "apply_remove_background_noise numpy_f64 (\<lambda>d p r n s. Inr (p, r)) echo_good_then_nan
      40 None (Fin (- 125)) (Fin 3) = (Inl ValueError :: error + int \<times> int)"
    by blast
qed

text \<open>
  Claim C10 as stated fails: here the second channel's mean increment is NaN, yet the
  call does not raise \<open>ValueError\<close>. The first channel's mean increment is zero, so
  \<open>10 / mean_diff\<close> is infinite and \<open>int\<close> of it raises \<open>OverflowError\<close> before the
  second channel is looked at.
\<close>

theorem nan_channel_after_flat_channel:
  "map (mean_diff numpy_f64 echo_flat_then_nan) [0..<2] = map Inr [Fin 0, NaN] \<and>
   apply_remove_background_noise numpy_f64 (\<lambda>d p r n s. Inr (p, r)) echo_flat_then_nan 40 None
      (Fin (- 125)) (Fin 3) = (Inl OverflowError :: error + int \<times> int)"
proof
  show "map (mean_diff numpy_f64 echo_flat_then_nan) [0..<2] = map Inr [Fin 0, NaN]"
    by (rule mean_diff_flat_then_nan)
  have sizes: "ds_sizes echo_flat_then_nan ''channel'' = Some 2"
    by (simp add: ds_sizes_def echo_flat_then_nan_def)
  from mean_diff_flat_then_nan have "mean_diff numpy_f64 echo_flat_then_nan 0 = Inr (Fin 0)"
    by (simp add: upt_rec)
  then show "apply_remove_background_noise numpy_f64 (\<lambda>d p r n s. Inr (p, r))
      echo_flat_then_nan 40 None (Fin (- 125)) (Fin 3) = (Inl OverflowError :: error + int \<times> int)"
    by (simp add: apply_remove_background_noise_def sizes upt_rec isnan_def default_bins)
qed

section \<open>Theorems: \<open>enrich_sv_dataset\<close>\<close>

lemma add_depth_allocates:
  "add_depth s Sv depth_offset tilt downward = Inr (s', r) \<Longrightarrow>
   \<exists>new. s' = s\<lparr>heap := (heap s)(next_ref s := new), next_ref := Suc (next_ref s)\<rparr>"
  by (auto simp: add_depth_def alloc_def Let_def split: sum.splits if_splits)

text \<open>
  Claim C9. For every store, every allocated dataset reference \<open>sv\<close>, every
  \<open>echodata\<close> and all keyword arguments, \<open>enrich_sv_dataset\<close> returns the reference
  \<open>sv\<close> itself, and the object behind it (its variables, coordinates and attributes)
  is what it was before, as is every other object that existed. Whether \<open>add_depth\<close>
  fails or computes a dataset with the depth coordinate, that result is never used.
\<close>

theorem enrich_sv_dataset_returns_input:
  assumes allocated: "sv < next_ref s"
  shows "snd (enrich_sv_dataset s sv echodata kwargs) = sv \<and>
         heap (fst (enrich_sv_dataset s sv echodata kwargs)) sv = heap s sv \<and>
         (\<forall>r<next_ref s. heap (fst (enrich_sv_dataset s sv echodata kwargs)) r = heap s r)"
proof -
  let ?depth_args = "select_kwargs [''depth_offset'', ''tilt'', ''downward''] kwargs"
  let ?call = "add_depth s sv (kwarg ?depth_args ''depth_offset'' (PyFloat (Fin 0)))
      (kwarg ?depth_args ''tilt'' (PyFloat (Fin 0)))
      (kwarg ?depth_args ''downward'' (PyBool True))"
  show ?thesis
  proof (cases ?call)
    case (Inl e)
    then have "enrich_sv_dataset s sv echodata kwargs = (s\<lparr>warnings := warnings s @ [e]\<rparr>, sv)"
      by (simp add: enrich_sv_dataset_def)
    then show ?thesis by simp
  next
    case (Inr res)
    obtain s' r where res: "res = (s', r)" by (cases res)
    with Inr have run: "enrich_sv_dataset s sv echodata kwargs = (s', sv)"
      by (simp add: enrich_sv_dataset_def)
    from Inr res add_depth_allocates obtain new
      where "s' = s\<lparr>heap := (heap s)(next_ref s := new), next_ref := Suc (next_ref s)\<rparr>"
      by blast
    with run allocated show ?thesis by simp
  qed
qed

lemma add_depth_one_ping:
  "add_depth two_objects 0 (PyFloat (Fin 5)) (PyFloat (Fin 0)) (PyBool True) =
     Inr (alloc two_objects sv_one_ping_with_depth)"
  by (simp add: add_depth_def two_objects_def sv_one_ping_with_depth_def sv_one_ping_def
      first_label_def ds_getitem_def ds_get_def sel_first_def isel_def
      assign_coords_range_sample_def ds_sizes_def Let_def upt_rec numeral_2_eq_2
      float64_zero float64_small)

lemma two_objects_fields:
  "heap two_objects 0 = sv_one_ping" "next_ref two_objects = 2" "warnings two_objects = []"
  by (simp_all add: two_objects_def)

lemma add_depth_empty_dataset:
  "add_depth two_objects (Suc 0) depth_offset tilt downward = Inl KeyError"
  by (simp add: add_depth_def two_objects_def empty_dataset_def first_label_def
      ds_getitem_def ds_get_def ds_sizes_def Let_def)

lemma enrich_one_ping:
  "enrich_sv_dataset two_objects 0 () [(''depth_offset'', PyFloat (Fin 5))] =
     (fst (alloc two_objects sv_one_ping_with_depth), 0)"
  by (simp add: enrich_sv_dataset_def select_kwargs_def kwarg_def add_depth_one_ping alloc_def)

lemma enrich_empty_dataset:
  "enrich_sv_dataset two_objects (Suc 0) () [] = (two_objects\<lparr>warnings := [KeyError]\<rparr>, Suc 0)"
  by (simp add: enrich_sv_dataset_def select_kwargs_def kwarg_def add_depth_empty_dataset
      two_objects_fields)

text \<open>The theorem at a store with two datasets. On the first, \<open>add_depth\<close> succeeds:
  the dataset with the new \<open>range_sample\<close> coordinate (6 m, 7 m) is allocated at address 2
  and dropped. On the second, \<open>add_depth\<close> raises and only a warning is left.\<close>

theorem enrich_sv_dataset_returns_input_witness:
  "snd (enrich_sv_dataset two_objects 0 () [(''depth_offset'', PyFloat (Fin 5))]) = 0 \<and>
   heap (fst (enrich_sv_dataset two_objects 0 () [(''depth_offset'', PyFloat (Fin 5))])) 0
     = sv_one_ping \<and>
   heap (fst (enrich_sv_dataset two_objects 0 () [(''depth_offset'', PyFloat (Fin 5))])) 2
     = sv_one_ping_with_depth \<and>
   snd (enrich_sv_dataset two_objects 1 () []) = 1 \<and>
   fst (enrich_sv_dataset two_objects 1 () []) = two_objects\<lparr>warnings := [KeyError]\<rparr>"
proof -
  have allocated: "0 < next_ref two_objects"
    by (simp add: two_objects_fields)
  have "heap two_objects 0 = sv_one_ping"
    by (rule two_objects_fields)
  with enrich_sv_dataset_returns_input [OF allocated, of "()" "[(''depth_offset'', PyFloat (Fin 5))]"]
  have "snd (enrich_sv_dataset two_objects 0 () [(''depth_offset'', PyFloat (Fin 5))]) = 0 \<and>
    heap (fst (enrich_sv_dataset two_objects 0 () [(''depth_offset'', PyFloat (Fin 5))])) 0
      = sv_one_ping"
    by simp
  moreover have "heap (fst (enrich_sv_dataset two_objects 0 ()
      [(''depth_offset'', PyFloat (Fin 5))])) 2 = sv_one_ping_with_depth"
    by (simp add: enrich_one_ping alloc_def two_objects_fields)
  ultimately show ?thesis
    by (simp add: enrich_empty_dataset)
qed

section \<open>Theorems: all-NaN input to the Sv interpolation\<close>

lemma index_of_Some: "index_of x xs = Some k \<Longrightarrow> k < length xs \<and> xs ! k = x"
  by (induction xs arbitrary: k) (auto split: if_splits)

lemma find_all_nan: "\<forall>j\<in>set js. isnan (lane ! j) \<Longrightarrow> List.find (\<lambda>j. \<not> isnan (lane ! j)) js = None"
  by (simp add: find_None_iff)

lemma interp_at_all_nan:
  assumes "\<forall>j<length lane. lane ! j = NaN" and "i < length lane"
  shows "interp_at m e lane i = NaN"
proof -
  have "prev_valid lane i = None"
    unfolding prev_valid_def using assms by (intro find_all_nan) (auto simp: isnan_def)
  moreover have "next_valid lane i = None"
    unfolding next_valid_def using assms by (intro find_all_nan) (auto simp: isnan_def)
  ultimately show ?thesis
    using assms by (simp add: interp_at_def isnan_def)
qed

lemma in_bounds_nth: "in_bounds shp idx \<Longrightarrow> k < length shp \<Longrightarrow> idx ! k < shp ! k"
  by (simp add: in_bounds_def list_all2_conv_all_nth)

lemma in_bounds_update:
  "in_bounds shp idx \<Longrightarrow> j < shp ! k \<Longrightarrow> in_bounds shp (idx[k := j])"
proof -
  assume inb: "in_bounds shp idx" and j: "j < shp ! k"
  have "idx[k := j] ! i < shp ! i" if "i < length shp" for i
  proof (cases "i = k")
    case True
    with that inb j show ?thesis
      by (simp add: in_bounds_def list_all2_conv_all_nth)
  next
    case False
    with that inb show ?thesis
      by (simp add: in_bounds_def list_all2_conv_all_nth)
  qed
  with inb show ?thesis
    by (simp add: in_bounds_def list_all2_conv_all_nth)
qed

lemma map_vals_fields:
  "dims (map_vals f a) = dims a" "shape (map_vals f a) = shape a"
  "vals (map_vals f a) idx = f (vals a idx)"
  by (simp_all add: map_vals_def)

lemma apply_masks_fields:
  "dims (apply_masks ds a) = dims a" "shape (apply_masks ds a) = shape a"
  by (simp_all add: apply_masks_def)

lemma var_floats_fields:
  "dims (var_floats v) = var_dims v" "shape (var_floats v) = var_shape v"
  by (cases v; simp)+

lemma apply_masks_nan: "vals a idx = NaN \<Longrightarrow> vals (apply_masks ds a) idx = NaN"
  by (simp add: apply_masks_def)

lemma map_of_store_var: "map_of (store_var name v ps) name = Some v"
  by (induction ps) auto

lemma slice_lane_in_bounds:
  assumes "in_bounds (shape a) idx" and "p \<in> set (slice_lane a axis idx)"
  shows "in_bounds (shape a) p"
  using assms by (auto simp: slice_lane_def in_bounds_update split: option.splits)

text \<open>A series that is all NaN stays all NaN in its slice.\<close>

lemma fill_slice_all_nan:
  assumes wf: "length (dims a) = length (shape a)"
    and inb: "in_bounds (shape a) idx"
    and nan: "\<forall>p\<in>set (slice_lane a axis idx). vals a p = NaN"
  shows "vals (fill_slice a axis m e) idx = NaN"
proof (cases "index_of axis (dims a)")
  case None
  with nan show ?thesis
    by (simp add: fill_slice_def slice_lane_def)
next
  case (Some k)
  then have k: "k < length (shape a)"
    using index_of_Some [of axis "dims a" k] wf by simp
  let ?lane = "map (vals a) (map (\<lambda>j. idx[k := j]) [0..<shape a ! k])"
  have all: "\<forall>j<length ?lane. ?lane ! j = NaN"
    using nan by (simp add: slice_lane_def Some)
  have "idx ! k < length ?lane"
    using in_bounds_nth [OF inb k] by simp
  with all have "interp_at m e ?lane (idx ! k) = NaN"
    by (rule interp_at_all_nan)
  then show ?thesis
    by (simp add: fill_slice_def slice_lane_def Some)
qed

lemma fill_slice_fields:
  "dims (fill_slice a axis m e) = dims a" "shape (fill_slice a axis m e) = shape a"
  by (simp_all add: fill_slice_def split: option.splits)

lemma gap_fill_fields:
  "dims (gap_fill a axis m e) = dims a" "shape (gap_fill a axis m e) = shape a"
  by (simp_all add: gap_fill_def fill_slice_fields split: option.splits)

lemma isel_fields:
  "dims (isel a k c) = take k (dims a) @ drop (Suc k) (dims a)"
  "shape (isel a k c) = take k (shape a) @ drop (Suc k) (shape a)"
  "vals (isel a k c) p = vals a (put_axis k c p)"
  by (simp_all add: isel_def put_axis_def)

lemma in_bounds_drop_axis:
  "in_bounds shp idx \<Longrightarrow> in_bounds (take k shp @ drop (Suc k) shp) (drop_axis k idx)"
  unfolding in_bounds_def drop_axis_def
  by (intro list_all2_appendI list_all2_takeI list_all2_dropI)

lemma in_bounds_put_axis:
  assumes p: "in_bounds (take k shp @ drop (Suc k) shp) p"
    and k: "k < length shp" and c: "c < shp ! k"
  shows "in_bounds shp (put_axis k c p) \<and> put_axis k c p ! k = c"
proof -
  from p obtain us vs where split: "p = us @ vs" and lu: "length us = length (take k shp)"
    and us: "list_all2 (<) us (take k shp)" and vs: "list_all2 (<) vs (drop (Suc k) shp)"
    unfolding in_bounds_def by (auto simp: list_all2_append2)
  from lu k have len: "length us = k" by simp
  then have put: "put_axis k c p = us @ c # vs"
    by (simp add: put_axis_def split)
  have "list_all2 (<) (us @ c # vs) (take k shp @ shp ! k # drop (Suc k) shp)"
    using us vs c by (intro list_all2_appendI) simp_all
  then have "list_all2 (<) (us @ c # vs) shp"
    using id_take_nth_drop [OF k] by simp
  then show ?thesis
    by (simp add: in_bounds_def put len nth_append)
qed

lemma put_drop_axis: "k < length idx \<Longrightarrow> put_axis k (idx ! k) (drop_axis k idx) = idx"
  using id_take_nth_drop [of k idx] by (simp add: put_axis_def drop_axis_def)

text \<open>The series that decides a value lies inside the grid and on the channel of the
  index, whatever the primary axis is.\<close>

lemma lane_positions_inside:
  assumes wf: "length (dims a) = length (shape a)"
    and inb: "in_bounds (shape a) idx"
    and p: "p \<in> set (lane_positions a axis idx)"
  shows "in_bounds (shape a) p \<and> (on_channel a c idx \<longrightarrow> on_channel a c p)"
proof (cases "index_of ''channel'' (dims a)")
  case None
  with p have "p \<in> set (slice_lane a axis idx)"
    by (simp add: lane_positions_def)
  with inb have "in_bounds (shape a) p" by (rule slice_lane_in_bounds)
  with None show ?thesis by (simp add: on_channel_def)
next
  case (Some kc)
  then have kc: "kc < length (shape a)"
    using index_of_Some [of "''channel''" "dims a" kc] wf by simp
  let ?S = "isel a kc (idx ! kc)"
  from p Some obtain q where q: "q \<in> set (slice_lane ?S axis (drop_axis kc idx))"
    and pq: "p = put_axis kc (idx ! kc) q"
    by (auto simp: lane_positions_def)
  have "in_bounds (shape ?S) (drop_axis kc idx)"
    using in_bounds_drop_axis [OF inb] by (simp add: isel_fields)
  from slice_lane_in_bounds [OF this q]
  have "in_bounds (take kc (shape a) @ drop (Suc kc) (shape a)) q"
    by (simp add: isel_fields)
  from in_bounds_put_axis [OF this kc in_bounds_nth [OF inb kc]] pq
  have "in_bounds (shape a) p \<and> p ! kc = idx ! kc" by simp
  with Some show ?thesis by (simp add: on_channel_def)
qed

text \<open>A series that is all NaN stays all NaN in the grid.\<close>

lemma gap_fill_all_nan:
  assumes wf: "length (dims a) = length (shape a)"
    and inb: "in_bounds (shape a) idx"
    and nan: "\<forall>p\<in>set (lane_positions a axis idx). vals a p = NaN"
  shows "vals (gap_fill a axis m e) idx = NaN"
proof (cases "index_of ''channel'' (dims a)")
  case None
  with nan have "\<forall>p\<in>set (slice_lane a axis idx). vals a p = NaN"
    by (simp add: lane_positions_def)
  from fill_slice_all_nan [OF wf inb this] None show ?thesis
    by (simp add: gap_fill_def)
next
  case (Some kc)
  let ?S = "isel a kc (idx ! kc)"
  have wfS: "length (dims ?S) = length (shape ?S)"
    using wf by (simp add: isel_fields)
  have inbS: "in_bounds (shape ?S) (drop_axis kc idx)"
    using in_bounds_drop_axis [OF inb] by (simp add: isel_fields)
  have nanS: "\<forall>q\<in>set (slice_lane ?S axis (drop_axis kc idx)). vals ?S q = NaN"
    using nan Some by (simp add: lane_positions_def isel_fields)
  from fill_slice_all_nan [OF wfS inbS nanS] Some show ?thesis
    by (simp add: gap_fill_def)
qed

lemma lane_positions_same_grid:
  "dims a = dims b \<Longrightarrow> shape a = shape b \<Longrightarrow>
   lane_positions a axis idx = lane_positions b axis idx"
  by (simp add: lane_positions_def slice_lane_def isel_def split: option.splits)

lemma sv_interpolated_lane:
  assumes wf: "length (var_dims v) = length (var_shape v)"
    and inb: "in_bounds (var_shape v) idx"
    and nan: "\<forall>p\<in>set (lane_positions (var_floats v) axis idx). vals (var_floats v) p = NaN"
  shows "vals (sv_interpolated ds v axis m e) idx = NaN"
proof -
  let ?A = "var_floats v"
  let ?L = "map_vals db_to_linear (apply_masks ds ?A)"
  have dL: "dims ?L = dims ?A" and sL: "shape ?L = shape ?A"
    by (simp_all add: map_vals_fields apply_masks_fields)
  have linear: "vals ?L p = NaN" if "vals ?A p = NaN" for p
    using apply_masks_nan [OF that, of ds] by (simp add: map_vals_fields)
  have "\<forall>p\<in>set (lane_positions ?L axis idx). vals ?L p = NaN"
    using nan linear lane_positions_same_grid [OF dL sL, of axis idx] by simp
  moreover have "length (dims ?L) = length (shape ?L)" "in_bounds (shape ?L) idx"
    using wf inb by (simp_all add: dL sL var_floats_fields)
  ultimately have "vals (gap_fill ?L axis m e) idx = NaN"
    by (intro gap_fill_all_nan)
  then show ?thesis
    by (simp add: sv_interpolated_def map_vals_fields)
qed

text \<open>
  Claim C4, on the model of \<open>interpolate_sv\<close> written from the spec. Let the input
  resolve to a dataset with an \<open>Sv\<close> variable and a \<open>channel\<close> dimension. Then, for
  every primary axis, interpolation method and edge-fill flag, \<open>interpolate_sv\<close> raises
  no error and stores \<open>Sv_interpolated\<close>, an array over the dimensions and shape of
  \<open>Sv\<close>, in which
  \<^item> every series along the primary axis that is entirely NaN in \<open>Sv\<close> is entirely NaN;
  \<^item> every channel that is entirely NaN in \<open>Sv\<close> is entirely NaN;
  \<^item> if \<open>Sv\<close> is entirely NaN, so is \<open>Sv_interpolated\<close>.
\<close>

theorem all_nan_sv_stays_nan:
  assumes loaded: "load_dataset files src = Inr ds"
    and sv: "map_of (data_vars ds) ''Sv'' = Some v"
    and wf: "length (var_dims v) = length (var_shape v)"
    and channel: "ds_sizes ds ''channel'' = Some n"
  shows "(\<exists>out. interpolate_sv files src axis m e = Inr out \<and>
            map_of (data_vars out) ''Sv_interpolated''
              = Some (FloatVar (sv_interpolated ds v axis m e))) \<and>
         dims (sv_interpolated ds v axis m e) = var_dims v \<and>
         shape (sv_interpolated ds v axis m e) = var_shape v \<and>
         (\<forall>idx. in_bounds (var_shape v) idx \<and>
                (\<forall>p\<in>set (lane_positions (var_floats v) axis idx). vals (var_floats v) p = NaN)
            \<longrightarrow> vals (sv_interpolated ds v axis m e) idx = NaN) \<and>
         (\<forall>c. (\<forall>idx. in_bounds (var_shape v) idx \<and> on_channel (var_floats v) c idx
                 \<longrightarrow> vals (var_floats v) idx = NaN)
            \<longrightarrow> (\<forall>idx. in_bounds (var_shape v) idx \<and> on_channel (var_floats v) c idx
                   \<longrightarrow> vals (sv_interpolated ds v axis m e) idx = NaN)) \<and>
         ((\<forall>idx. in_bounds (var_shape v) idx \<longrightarrow> vals (var_floats v) idx = NaN)
            \<longrightarrow> (\<forall>idx. in_bounds (var_shape v) idx
                   \<longrightarrow> vals (sv_interpolated ds v axis m e) idx = NaN))"
proof (intro conjI)
  let ?A = "var_floats v"
  have wfA: "length (dims ?A) = length (shape ?A)"
    using wf by (simp add: var_floats_fields)
  have run: "interpolate_sv files src axis m e =
      Inr (ds\<lparr>data_vars := store_var ''Sv_interpolated''
                 (FloatVar (sv_interpolated ds v axis m e)) (data_vars ds)\<rparr>)"
    by (simp add: interpolate_sv_def loaded sv channel)
  show "\<exists>out. interpolate_sv files src axis m e = Inr out \<and>
      map_of (data_vars out) ''Sv_interpolated'' = Some (FloatVar (sv_interpolated ds v axis m e))"
    by (simp add: run map_of_store_var)
  show "dims (sv_interpolated ds v axis m e) = var_dims v"
    by (simp add: sv_interpolated_def gap_fill_fields map_vals_fields apply_masks_fields
        var_floats_fields)
  show "shape (sv_interpolated ds v axis m e) = var_shape v"
    by (simp add: sv_interpolated_def gap_fill_fields map_vals_fields apply_masks_fields
        var_floats_fields)
  show lane: "\<forall>idx. in_bounds (var_shape v) idx \<and>
        (\<forall>p\<in>set (lane_positions ?A axis idx). vals ?A p = NaN)
      \<longrightarrow> vals (sv_interpolated ds v axis m e) idx = NaN"
    using sv_interpolated_lane [OF wf] by blast
  show "\<forall>c. (\<forall>idx. in_bounds (var_shape v) idx \<and> on_channel ?A c idx \<longrightarrow> vals ?A idx = NaN)
      \<longrightarrow> (\<forall>idx. in_bounds (var_shape v) idx \<and> on_channel ?A c idx
             \<longrightarrow> vals (sv_interpolated ds v axis m e) idx = NaN)"
  proof (intro allI impI, elim conjE)
    fix c idx
    assume dead: "\<forall>idx. in_bounds (var_shape v) idx \<and> on_channel ?A c idx \<longrightarrow> vals ?A idx = NaN"
      and inb: "in_bounds (var_shape v) idx" and on: "on_channel ?A c idx"
    have "\<forall>p\<in>set (lane_positions ?A axis idx). vals ?A p = NaN"
    proof
      fix p assume p: "p \<in> set (lane_positions ?A axis idx)"
      have "in_bounds (shape ?A) p \<and> (on_channel ?A c idx \<longrightarrow> on_channel ?A c p)"
        using wfA _ p by (rule lane_positions_inside) (simp add: inb var_floats_fields)
      with on dead show "vals ?A p = NaN"
        by (simp add: var_floats_fields)
    qed
    with inb show "vals (sv_interpolated ds v axis m e) idx = NaN"
      using sv_interpolated_lane [OF wf] by blast
  qed
  show "(\<forall>idx. in_bounds (var_shape v) idx \<longrightarrow> vals ?A idx = NaN)
      \<longrightarrow> (\<forall>idx. in_bounds (var_shape v) idx
             \<longrightarrow> vals (sv_interpolated ds v axis m e) idx = NaN)"
  proof (intro allI impI)
    fix idx
    assume all: "\<forall>idx. in_bounds (var_shape v) idx \<longrightarrow> vals ?A idx = NaN"
      and inb: "in_bounds (var_shape v) idx"
    have "\<forall>p\<in>set (lane_positions ?A axis idx). vals ?A p = NaN"
    proof
      fix p assume p: "p \<in> set (lane_positions ?A axis idx)"
      have "in_bounds (shape ?A) p \<and> (on_channel ?A 0 idx \<longrightarrow> on_channel ?A 0 p)"
        using wfA _ p by (rule lane_positions_inside) (simp add: inb var_floats_fields)
      with all show "vals ?A p = NaN"
        by (simp add: var_floats_fields)
    qed
    with inb show "vals (sv_interpolated ds v axis m e) idx = NaN"
      using sv_interpolated_lane [OF wf] by blast
  qed
qed

text \<open>The theorem at the test's all-NaN dataset (two of its corners), and at a dataset
  whose first channel is all NaN while the second holds values, with edge-fill: along
  the ping axis, and with \<open>channel\<close> named as the primary axis.\<close>

theorem all_nan_sv_stays_nan_witness:
  "(\<exists>out. interpolate_sv (\<lambda>p. None) (FromDataset all_nan_dataset) ''ping_time'' Linear False
             = Inr out \<and>
          map_of (data_vars out) ''Sv_interpolated''
            = Some (FloatVar (sv_interpolated all_nan_dataset all_nan_sv ''ping_time'' Linear False))) \<and>
   vals (sv_interpolated all_nan_dataset all_nan_sv ''ping_time'' Linear False) [0, 0] = NaN \<and>
   vals (sv_interpolated all_nan_dataset all_nan_sv ''ping_time'' Linear False) [4, 4] = NaN \<and>
   vals (sv_interpolated one_dead_channel one_dead_sv ''ping_time'' Nearest True) [1, 0] = NaN \<and>
   vals (sv_interpolated one_dead_channel one_dead_sv ''channel'' Nearest True) [0, 0] = NaN"
proof -
  have loaded: "load_dataset (\<lambda>p. None) (FromDataset all_nan_dataset) = Inr all_nan_dataset"
    by (simp add: load_dataset_def)
  have sv: "map_of (data_vars all_nan_dataset) ''Sv'' = Some all_nan_sv"
    by (simp add: all_nan_dataset_def)
  have wf: "length (var_dims all_nan_sv) = length (var_shape all_nan_sv)"
    by (simp add: all_nan_sv_def)
  have channel: "ds_sizes all_nan_dataset ''channel'' = Some 5"
    by (simp add: ds_sizes_def all_nan_dataset_def all_nan_sv_def)
  note all = all_nan_sv_stays_nan [OF loaded sv wf channel, of "''ping_time''" Linear False]
  have nan: "\<forall>idx. in_bounds (var_shape all_nan_sv) idx \<longrightarrow> vals (var_floats all_nan_sv) idx = NaN"
    by (simp add: all_nan_sv_def)
  from all nan have filled: "\<forall>idx. in_bounds (var_shape all_nan_sv) idx \<longrightarrow>
      vals (sv_interpolated all_nan_dataset all_nan_sv ''ping_time'' Linear False) idx = NaN"
    by blast
  have "in_bounds (var_shape all_nan_sv) [0, 0]" "in_bounds (var_shape all_nan_sv) [4, 4]"
    by (simp_all add: all_nan_sv_def in_bounds_def)
  with filled have corners:
    "vals (sv_interpolated all_nan_dataset all_nan_sv ''ping_time'' Linear False) [0, 0] = NaN"
    "vals (sv_interpolated all_nan_dataset all_nan_sv ''ping_time'' Linear False) [4, 4] = NaN"
    by blast+
  have loaded': "load_dataset (\<lambda>p. None) (FromDataset one_dead_channel) = Inr one_dead_channel"
    by (simp add: load_dataset_def)
  have sv': "map_of (data_vars one_dead_channel) ''Sv'' = Some one_dead_sv"
    by (simp add: one_dead_channel_def)
  have wf': "length (var_dims one_dead_sv) = length (var_shape one_dead_sv)"
    by (simp add: one_dead_sv_def)
  have channel': "ds_sizes one_dead_channel ''channel'' = Some 2"
    by (simp add: ds_sizes_def one_dead_channel_def one_dead_sv_def)
  note one = all_nan_sv_stays_nan [OF loaded' sv' wf' channel', of "''ping_time''" Nearest True]
  note across = all_nan_sv_stays_nan [OF loaded' sv' wf' channel', of "''channel''" Nearest True]
  have dead: "\<forall>idx. in_bounds (var_shape one_dead_sv) idx \<and> on_channel (var_floats one_dead_sv) 0 idx
      \<longrightarrow> vals (var_floats one_dead_sv) idx = NaN"
    by (auto simp: one_dead_sv_def on_channel_def)
  have here: "in_bounds (var_shape one_dead_sv) [1, 0] \<and> on_channel (var_floats one_dead_sv) 0 [1, 0]"
    "in_bounds (var_shape one_dead_sv) [0, 0] \<and> on_channel (var_floats one_dead_sv) 0 [0, 0]"
    by (simp_all add: one_dead_sv_def in_bounds_def on_channel_def)
  from one dead here(1)
  have along: "vals (sv_interpolated one_dead_channel one_dead_sv ''ping_time'' Nearest True) [1, 0] = NaN"
    by blast
  from across dead here(2)
  have "vals (sv_interpolated one_dead_channel one_dead_sv ''channel'' Nearest True) [0, 0] = NaN"
    by blast
  with all corners along show ?thesis by blast
qed

end
